theory Spec2Isabelle
  imports Main
begin

section \<open>JavaScript values used by the date engine\<close>

text \<open>
  A JavaScript number that the program produces is either an integer or NaN; it is
  modelled as \<open>int option\<close> with \<open>None\<close> for NaN. Integers are exact here (a double is
  exact below \<open>2 ^ 53\<close>, and every comparison of the program is against a small
  constant or the fixed range of Date). A string is a list of 8-bit characters, so the
  inputs considered are those whose code units lie below 256.
\<close>

type_synonym number = "int option"

datatype error =
    InvalidDateFormat   \<comment> \<open>\<open>Invalid date format\<close>: fewer than five tokens\<close>
  | InvalidTimeFormat   \<comment> \<open>\<open>Invalid time format\<close>\<close>
  | InvalidMonth        \<comment> \<open>\<open>Invalid month\<close>\<close>
  | InvalidDay          \<comment> \<open>\<open>Invalid day\<close>\<close>
  | UnsupportedTimezone \<comment> \<open>\<open>Unsupported timezone\<close>\<close>
  | TypeError           \<comment> \<open>a method called on \<open>undefined\<close>\<close>

subsection \<open>Whitespace, trim and split\<close>

text \<open>The characters that \<open>\s\<close> and \<open>trim\<close> treat as white space, below code unit 256.\<close>

definition is_space :: "char \<Rightarrow> bool" where
  "is_space c \<longleftrightarrow>
     c \<in> set [CHR 0x09, CHR 0x0A, CHR 0x0B, CHR 0x0C, CHR 0x0D, CHR 0x20, CHR 0xA0]"

definition trim :: "string \<Rightarrow> string" where
  "trim s = rev (dropWhile is_space (rev (dropWhile is_space s)))"

text \<open>
  \<open>s.split(/\s+/)\<close>: every maximal run of white space is one separator; a separator
  at either end leaves an empty token there, and the empty string gives one empty token.
\<close>

fun split_ws :: "string \<Rightarrow> string list" where
  "split_ws [] = [[]]"
| "split_ws (c # cs) =
     (if is_space c then
        (if cs \<noteq> [] \<and> is_space (hd cs) then split_ws cs else [] # split_ws cs)
      else (case split_ws cs of [] \<Rightarrow> [[c]] | t # ts \<Rightarrow> (c # t) # ts))"


text \<open>\<open>xs[i]\<close> of an array: \<open>undefined\<close> (here \<open>None\<close>) out of range.\<close>

definition at_index :: "'a list \<Rightarrow> nat \<Rightarrow> 'a option" where
  "at_index xs i = (if i < length xs then Some (xs ! i) else None)"

text \<open>\<open>xs.indexOf(x)\<close>: the first index of \<open>x\<close>, or \<open>-1\<close>.\<close>

fun indexOf :: "'a list \<Rightarrow> 'a \<Rightarrow> int" where
  "indexOf [] x = -1"
| "indexOf (y # ys) x = (if y = x then 0 else (let i = indexOf ys x in if i < 0 then -1 else i + 1))"


subsection \<open>parseInt\<close>

definition is_digit :: "char \<Rightarrow> bool" where
  "is_digit c \<longleftrightarrow> 48 \<le> (of_char c :: nat) \<and> (of_char c :: nat) \<le> 57"

text \<open>The value of a character as a digit of radix 10 or 16, if it is one.\<close>

definition digit_value :: "nat \<Rightarrow> char \<Rightarrow> nat option" where
  "digit_value radix c =
     (let n = (of_char c :: nat) in
      if 48 \<le> n \<and> n \<le> 57 then Some (n - 48)
      else if radix = 16 \<and> 97 \<le> n \<and> n \<le> 102 then Some (n - 87)
      else if radix = 16 \<and> 65 \<le> n \<and> n \<le> 70 then Some (n - 55)
      else None)"

text \<open>The longest prefix of digits, read left to right: its value and its length.\<close>

fun read_digits :: "nat \<Rightarrow> nat \<Rightarrow> nat \<Rightarrow> string \<Rightarrow> nat \<times> nat" where
  "read_digits radix acc n [] = (acc, n)"
| "read_digits radix acc n (c # cs) =
     (case digit_value radix c of
        None \<Rightarrow> (acc, n)
      | Some v \<Rightarrow> read_digits radix (acc * radix + v) (Suc n) cs)"

text \<open>
  \<open>parseInt(s)\<close> with no radix: leading white space is skipped, one sign is read, a
  prefix \<open>0x\<close> or \<open>0X\<close> selects radix 16, the longest prefix of digits is the value and
  whatever follows it is ignored; with no digit the result is NaN.
\<close>

definition strip_sign :: "string \<Rightarrow> int \<times> string" where
  "strip_sign s =
     (case s of
        [] \<Rightarrow> (1, s)
      | c # r \<Rightarrow> if c = CHR ''-'' then (-1, r) else if c = CHR ''+'' then (1, r) else (1, s))"

definition strip_radix :: "string \<Rightarrow> nat \<times> string" where
  "strip_radix s =
     (case s of
        c # x # r \<Rightarrow> if c = CHR ''0'' \<and> (x = CHR ''x'' \<or> x = CHR ''X'') then (16, r) else (10, s)
      | _ \<Rightarrow> (10, s))"

definition parseInt :: "string \<Rightarrow> number" where
  "parseInt s =
     (let (sign, s2) = strip_sign (dropWhile is_space s);
          (radix, s3) = strip_radix s2;
          (v, n) = read_digits radix 0 0 s3
      in if n = 0 then None else Some (sign * int v))"


subsection \<open>The time pattern\<close>

text \<open>
  \<open>timeString.match(/(\d{1,2}):(\d{2})(am|pm)/i)\<close>. The pattern has no anchors, so the
  match is the leftmost place of the token where it fits. At one place, \<open>\d{1,2}\<close>
  takes two digits first and falls back to one.
\<close>

text \<open>
  The lower case of a letter of the basic alphabet. The program asks for it only on the
  two letters that the pattern matched, and the pattern compares letters through it.
\<close>

definition lower :: "char \<Rightarrow> char" where
  "lower c =
     (case map_of (zip ''ABCDEFGHIJKLMNOPQRSTUVWXYZ'' ''abcdefghijklmnopqrstuvwxyz'') c of
        None \<Rightarrow> c
      | Some l \<Rightarrow> l)"

definition toLowerCase :: "string \<Rightarrow> string" where
  "toLowerCase s = map lower s"

fun ampm_here :: "string \<Rightarrow> string option" where
  "ampm_here (a # m # r) =
     (if (lower a = CHR ''a'' \<or> lower a = CHR ''p'') \<and> lower m = CHR ''m''
      then Some [a, m] else None)"
| "ampm_here _ = None"

fun match_tail :: "string \<Rightarrow> string \<Rightarrow> (string \<times> string \<times> string) option" where
  "match_tail h (c # d1 # d2 # r) =
     (if c = CHR '':'' \<and> is_digit d1 \<and> is_digit d2
      then (case ampm_here r of None \<Rightarrow> None | Some ap \<Rightarrow> Some (h, [d1, d2], ap))
      else None)"
| "match_tail h _ = None"

fun match_here :: "string \<Rightarrow> (string \<times> string \<times> string) option" where
  "match_here (c1 # c2 # r) =
     (if is_digit c1 \<and> is_digit c2 then
        (case match_tail [c1, c2] r of
           Some x \<Rightarrow> Some x
         | None \<Rightarrow> match_tail [c1] (c2 # r))
      else if is_digit c1 then match_tail [c1] (c2 # r)
      else None)"
| "match_here _ = None"

fun time_match :: "string \<Rightarrow> (string \<times> string \<times> string) option" where
  "time_match [] = None"
| "time_match (c # cs) =
     (case match_here (c # cs) of Some x \<Rightarrow> Some x | None \<Rightarrow> time_match cs)"

section \<open>The parser of DateManipulator\<close>

definition MONTHS :: "string list" where
  "MONTHS = [''January'', ''February'', ''March'', ''April'', ''May'', ''June'',
             ''July'', ''August'', ''September'', ''October'', ''November'', ''December'']"

definition SUPPORTED_TIMEZONES :: "string list" where
  "SUPPORTED_TIMEZONES = [''EST'', ''PST'', ''CST'', ''MST'', ''UTC'', ''GMT'']"

definition TIMEZONE_OFFSETS :: "string \<Rightarrow> int option" where
  "TIMEZONE_OFFSETS = map_of [(''EST'', -5), (''PST'', -8), (''CST'', -6), (''MST'', -7),
                              (''UTC'', 0), (''GMT'', 0)]"

record parsed =
  year :: number
  month :: number
  day :: number
  hour :: number
  minute :: number
  timezone :: string
  originalString :: string

text \<open>The conversion of the hour to the 24-hour clock, as both implementations do it.\<close>

definition to24 :: "string \<Rightarrow> number \<Rightarrow> number" where
  "to24 ampm h =
     (if ampm = ''pm'' \<and> h \<noteq> Some 12 then map_option (\<lambda>x. x + 12) h
      else if ampm = ''am'' \<and> h = Some 12 then Some 0
      else h)"

text \<open>
  \<open>parseDateString\<close>, on the tokens. The checks run in the order of the source: the
  number of tokens, the time pattern, the month, the day, the time zone. A comparison
  with NaN is false, so \<open>day < 1 || day > 31\<close> lets a NaN day pass; the year is not
  checked.
\<close>

definition parse_parts :: "string \<Rightarrow> string list \<Rightarrow> error + parsed" where
  "parse_parts dateString parts =
     (if length parts < 5 then Inl InvalidDateFormat
      else
        let monthName = parts ! 0;
            day = parseInt (parts ! 1);
            year = parseInt (parts ! 2);
            timeString = parts ! 3;
            timezone = parts ! 4
        in case time_match timeString of
             None \<Rightarrow> Inl InvalidTimeFormat
           | Some (h, m, ampm) \<Rightarrow>
               let hour = to24 (toLowerCase ampm) (parseInt h);
                   minute = parseInt m
               in if monthName \<notin> set MONTHS then Inl InvalidMonth
                  else if (case day of None \<Rightarrow> False | Some d \<Rightarrow> d < 1 \<or> d > 31)
                       then Inl InvalidDay
                  else if timezone \<notin> set SUPPORTED_TIMEZONES then Inl UnsupportedTimezone
                  else Inr \<lparr> year = year, month = Some (indexOf MONTHS monthName), day = day,
                             hour = hour, minute = minute, timezone = timezone,
                             originalString = dateString \<rparr>)"

text \<open>The tokens of an input: \<open>dateString.trim().split(/\s+/)\<close>.\<close>

definition tokens :: "string \<Rightarrow> string list" where
  "tokens dateString = split_ws (trim dateString)"

definition parseDateString :: "string \<Rightarrow> error + parsed" where
  "parseDateString dateString = parse_parts dateString (tokens dateString)"

section \<open>The Date object\<close>

text \<open>
  The program leaves all calendar arithmetic to the built-in Date: \<open>new Date(year,
  month, day, hour, minute)\<close>, \<open>getHours\<close>, \<open>setHours\<close> and the getters that
  \<open>formatDate\<close> reads. They are modelled as the language defines them, on the time
  value of the object: the number of milliseconds since 1 January 1970, or NaN. The
  host's local time zone is taken to have a constant offset from UTC (no daylight
  saving), so that local time and UTC differ by a shift that the arithmetic does not
  see; the shift is taken to be zero.
\<close>

definition msPerDay :: int where "msPerDay = 86400000"
definition msPerHour :: int where "msPerHour = 3600000"
definition msPerMinute :: int where "msPerMinute = 60000"

definition DaysInYear :: "int \<Rightarrow> int" where
  "DaysInYear y =
     (if y mod 4 \<noteq> 0 then 365
      else if y mod 100 \<noteq> 0 then 366
      else if y mod 400 \<noteq> 0 then 365
      else 366)"

definition InLeapYear :: "int \<Rightarrow> int" where
  "InLeapYear y = (if DaysInYear y = 366 then 1 else 0)"

definition DayFromYear :: "int \<Rightarrow> int" where
  "DayFromYear y =
     365 * (y - 1970) + (y - 1969) div 4 - (y - 1901) div 100 + (y - 1601) div 400"

lemma div_step:
  fixes a n :: int
  assumes "0 < n"
  shows "(a + 1) div n = a div n + (if (a + 1) mod n = 0 then 1 else 0)"
proof -
  define q where "q = a div n"
  define r where "r = a mod n"
  have a: "a = n * q + r" by (simp add: q_def r_def)
  have r: "0 \<le> r" "r < n" using assms by (simp_all add: r_def)
  show ?thesis
  proof (cases "r + 1 = n")
    case True
    then have "a + 1 = n * (q + 1)" using a by (simp add: algebra_simps)
    then have "(a + 1) div n = q + 1" "(a + 1) mod n = 0" using assms by simp_all
    then show ?thesis by (simp add: q_def)
  next
    case False
    then have lt: "r + 1 < n" using r by simp
    have eq: "a + 1 = n * q + (r + 1)" using a by simp
    have "(a + 1) div n = q" using eq r lt by (intro int_div_pos_eq [where r = "r + 1"]) simp_all
    moreover have "(a + 1) mod n = r + 1"
      using eq r lt by (intro int_mod_pos_eq [where q = q]) simp_all
    ultimately show ?thesis using r by (simp add: q_def)
  qed
qed

lemma mod_step_zero:
  fixes y :: int
  shows "(y - 1968) mod 4 = 0 \<longleftrightarrow> y mod 4 = 0"
    and "(y - 1900) mod 100 = 0 \<longleftrightarrow> y mod 100 = 0"
    and "(y - 1600) mod 400 = 0 \<longleftrightarrow> y mod 400 = 0"
proof -
  have "(y - 1968) mod 4 = (y + 4 * (-492)) mod 4" by simp
  also have "\<dots> = y mod 4" by (rule mod_mult_self2)
  finally show "(y - 1968) mod 4 = 0 \<longleftrightarrow> y mod 4 = 0" by simp
  have "(y - 1900) mod 100 = (y + 100 * (-19)) mod 100" by simp
  also have "\<dots> = y mod 100" by (rule mod_mult_self2)
  finally show "(y - 1900) mod 100 = 0 \<longleftrightarrow> y mod 100 = 0" by simp
  have "(y - 1600) mod 400 = (y + 400 * (-4)) mod 400" by simp
  also have "\<dots> = y mod 400" by (rule mod_mult_self2)
  finally show "(y - 1600) mod 400 = 0 \<longleftrightarrow> y mod 400 = 0" by simp
qed

lemma DaysInYear_bounds: "365 \<le> DaysInYear y" "DaysInYear y \<le> 366"
  by (simp_all add: DaysInYear_def)

lemma DayFromYear_Suc: "DayFromYear (y + 1) = DayFromYear y + DaysInYear y"
proof -
  have a: "(y + 1 - 1969) div 4 = (y - 1969) div 4 + (if y mod 4 = 0 then 1 else 0)"
    using div_step [of 4 "y - 1969"] mod_step_zero(1) [of y] by (simp add: algebra_simps)
  have b: "(y + 1 - 1901) div 100 = (y - 1901) div 100 + (if y mod 100 = 0 then 1 else 0)"
    using div_step [of 100 "y - 1901"] mod_step_zero(2) [of y] by (simp add: algebra_simps)
  have c: "(y + 1 - 1601) div 400 = (y - 1601) div 400 + (if y mod 400 = 0 then 1 else 0)"
    using div_step [of 400 "y - 1601"] mod_step_zero(3) [of y] by (simp add: algebra_simps)
  have d: "y mod 400 = 0 \<Longrightarrow> y mod 100 = 0" "y mod 100 = 0 \<Longrightarrow> y mod 4 = 0"
    by (auto simp: mod_eq_0_iff_dvd)
  show ?thesis
    unfolding DayFromYear_def DaysInYear_def a b c using d by auto
qed

lemma DayFromYear_less: "DayFromYear y < DayFromYear (y + 1)"
  using DaysInYear_bounds(1) [of y] by (simp add: DayFromYear_Suc)

text \<open>
  \<open>YearFromTime\<close> is the largest year that starts no later than the given day. The
  search starts from a year that is not too late: a year has at most 366 days and at
  least 365.
\<close>

function year_search :: "int \<Rightarrow> int \<Rightarrow> int" where
  "year_search d y = (if DayFromYear (y + 1) \<le> d then year_search d (y + 1) else y)"
  by pat_completeness auto
termination
proof (relation "measure (\<lambda>(d, y). nat (d - DayFromYear y))")
  show "wf (measure (\<lambda>(d, y). nat (d - DayFromYear y)))" by simp
next
  fix d y :: int
  assume "DayFromYear (y + 1) \<le> d"
  then show "((d, y + 1), (d, y)) \<in> measure (\<lambda>(d, y). nat (d - DayFromYear y))"
    using DayFromYear_less [of y] by simp
qed

declare year_search.simps [simp del]

definition YearFromDay :: "int \<Rightarrow> int" where
  "YearFromDay d = year_search d (1970 + (if 0 \<le> d then d div 366 else d div 365))"

definition Day :: "int \<Rightarrow> int" where
  "Day t = t div msPerDay"

definition YearFromTime :: "int \<Rightarrow> int" where
  "YearFromTime t = YearFromDay (Day t)"

definition DayWithinYear :: "int \<Rightarrow> int" where
  "DayWithinYear t = Day t - DayFromYear (YearFromTime t)"

text \<open>The month and the day of the month, from the day within the year and the leap flag.\<close>

definition month_of_yday :: "int \<Rightarrow> int \<Rightarrow> int" where
  "month_of_yday d l =
     (if d < 31 then 0
      else if d < 59 + l then 1
      else if d < 90 + l then 2
      else if d < 120 + l then 3
      else if d < 151 + l then 4
      else if d < 181 + l then 5
      else if d < 212 + l then 6
      else if d < 243 + l then 7
      else if d < 273 + l then 8
      else if d < 304 + l then 9
      else if d < 334 + l then 10
      else 11)"

definition date_of_yday :: "int \<Rightarrow> int \<Rightarrow> int" where
  "date_of_yday d l =
     (let m = month_of_yday d l in
      if m = 0 then d + 1
      else if m = 1 then d - 30
      else if m = 2 then d - 58 - l
      else if m = 3 then d - 89 - l
      else if m = 4 then d - 119 - l
      else if m = 5 then d - 150 - l
      else if m = 6 then d - 180 - l
      else if m = 7 then d - 211 - l
      else if m = 8 then d - 242 - l
      else if m = 9 then d - 272 - l
      else if m = 10 then d - 303 - l
      else d - 333 - l)"

definition MonthFromTime :: "int \<Rightarrow> int" where
  "MonthFromTime t = month_of_yday (DayWithinYear t) (InLeapYear (YearFromTime t))"

definition DateFromTime :: "int \<Rightarrow> int" where
  "DateFromTime t = date_of_yday (DayWithinYear t) (InLeapYear (YearFromTime t))"

definition HourFromTime :: "int \<Rightarrow> int" where
  "HourFromTime t = (t div msPerHour) mod 24"

definition MinFromTime :: "int \<Rightarrow> int" where
  "MinFromTime t = (t div msPerMinute) mod 60"

definition SecFromTime :: "int \<Rightarrow> int" where
  "SecFromTime t = (t div 1000) mod 60"

definition msFromTime :: "int \<Rightarrow> int" where
  "msFromTime t = t mod 1000"

definition MakeTime :: "int \<Rightarrow> int \<Rightarrow> int \<Rightarrow> int \<Rightarrow> int" where
  "MakeTime h m s ms = h * msPerHour + m * msPerMinute + s * 1000 + ms"

text \<open>The first day of month \<open>m\<close> (0 to 11) within its year.\<close>

definition month_start :: "int \<Rightarrow> int \<Rightarrow> int" where
  "month_start m l =
     (if m = 0 then 0
      else if m = 1 then 31
      else if m = 2 then 59 + l
      else if m = 3 then 90 + l
      else if m = 4 then 120 + l
      else if m = 5 then 151 + l
      else if m = 6 then 181 + l
      else if m = 7 then 212 + l
      else if m = 8 then 243 + l
      else if m = 9 then 273 + l
      else if m = 10 then 304 + l
      else 334 + l)"

text \<open>
  \<open>MakeDay\<close>: months beyond 0 to 11 carry into the year; the day number of the first
  of that month, plus the day of the month minus one (which may be any integer).
\<close>

definition MakeDay :: "int \<Rightarrow> int \<Rightarrow> int \<Rightarrow> int" where
  "MakeDay y m dt =
     (let ym = y + m div 12; mn = m mod 12
      in DayFromYear ym + month_start mn (InLeapYear ym) + dt - 1)"

definition MakeDate :: "int \<Rightarrow> int \<Rightarrow> int" where
  "MakeDate d time = d * msPerDay + time"

definition TimeClip :: "int \<Rightarrow> number" where
  "TimeClip t = (if \<bar>t\<bar> > 8640000000000000 then None else Some t)"

text \<open>The constructor reads a year from 0 to 99 as a year of the twentieth century.\<close>

definition MakeFullYear :: "int \<Rightarrow> int" where
  "MakeFullYear y = (if 0 \<le> y \<and> y \<le> 99 then 1900 + y else y)"

definition new_Date :: "number \<Rightarrow> number \<Rightarrow> number \<Rightarrow> number \<Rightarrow> number \<Rightarrow> number" where
  "new_Date y m d h mi =
     (case (y, m, d, h, mi) of
        (Some y', Some m', Some d', Some h', Some mi') \<Rightarrow>
          TimeClip (MakeDate (MakeDay (MakeFullYear y') m' d') (MakeTime h' mi' 0 0))
      | _ \<Rightarrow> None)"

definition getFullYear :: "number \<Rightarrow> number" where
  "getFullYear date = map_option YearFromTime date"

definition getMonth :: "number \<Rightarrow> number" where
  "getMonth date = map_option MonthFromTime date"

definition getDate :: "number \<Rightarrow> number" where
  "getDate date = map_option DateFromTime date"

definition getHours :: "number \<Rightarrow> number" where
  "getHours date = map_option HourFromTime date"

definition getMinutes :: "number \<Rightarrow> number" where
  "getMinutes date = map_option MinFromTime date"

definition setHours :: "number \<Rightarrow> number \<Rightarrow> number" where
  "setHours date h =
     (case (date, h) of
        (Some t, Some h') \<Rightarrow>
          TimeClip (MakeDate (Day t) (MakeTime h' (MinFromTime t) (SecFromTime t) (msFromTime t)))
      | _ \<Rightarrow> None)"

text \<open>Addition and subtraction of numbers: NaN if either side is NaN.\<close>

definition num_add :: "number \<Rightarrow> number \<Rightarrow> number" where
  "num_add a b = (case (a, b) of (Some x, Some y) \<Rightarrow> Some (x + y) | _ \<Rightarrow> None)"

definition num_sub :: "number \<Rightarrow> number \<Rightarrow> number" where
  "num_sub a b = (case (a, b) of (Some x, Some y) \<Rightarrow> Some (x - y) | _ \<Rightarrow> None)"

subsection \<open>Numbers as text\<close>

definition digit_char :: "nat \<Rightarrow> char" where
  "digit_char n = ''0123456789'' ! n"

fun show_nat :: "nat \<Rightarrow> string" where
  "show_nat n =
     (if n < 10 then [digit_char n] else show_nat (n div 10) @ [digit_char (n mod 10)])"

declare show_nat.simps [simp del]

definition show_int :: "int \<Rightarrow> string" where
  "show_int i = (if i < 0 then CHR ''-'' # show_nat (nat (- i)) else show_nat (nat i))"

definition toString :: "number \<Rightarrow> string" where
  "toString x = (case x of None \<Rightarrow> ''NaN'' | Some i \<Rightarrow> show_int i)"

text \<open>\<open>s.padStart(2, '0')\<close>\<close>

definition padStart2 :: "string \<Rightarrow> string" where
  "padStart2 s = replicate (2 - length s) CHR ''0'' @ s"

section \<open>Arithmetic and formatting of DateManipulator\<close>

record result =
  original :: parsed
  newDate :: number
  hoursAdded :: int
  result_timezone :: string

definition addHours :: "parsed \<Rightarrow> int \<Rightarrow> result" where
  "addHours parsedDate hoursToAdd =
     (let date = new_Date (year parsedDate) (month parsedDate) (day parsedDate)
                   (hour parsedDate) (minute parsedDate);
          date = setHours date (num_add (getHours date) (Some hoursToAdd))
      in \<lparr> original = parsedDate, newDate = date, hoursAdded = hoursToAdd,
           result_timezone = timezone parsedDate \<rparr>)"

text \<open>\<open>MONTHS[i]\<close>, as text: \<open>undefined\<close> when \<open>i\<close> is NaN or not an index.\<close>

definition month_name :: "number \<Rightarrow> string" where
  "month_name i =
     (case i of
        None \<Rightarrow> ''undefined''
      | Some k \<Rightarrow> (if 0 \<le> k then (case at_index MONTHS (nat k) of
                                      None \<Rightarrow> ''undefined'' | Some n \<Rightarrow> n)
                   else ''undefined''))"

text \<open>The 12-hour clock of \<open>formatDate\<close>; a comparison with NaN is false.\<close>

definition to12 :: "number \<Rightarrow> number \<times> string" where
  "to12 h =
     (if h = Some 0 then (Some 12, ''am'')
      else if h = Some 12 then (h, ''pm'')
      else if (case h of None \<Rightarrow> False | Some x \<Rightarrow> x > 12)
           then (map_option (\<lambda>x. x - 12) h, ''pm'')
      else (h, ''am''))"

definition formatDate :: "number \<Rightarrow> string \<Rightarrow> string" where
  "formatDate date tz =
     (let month = month_name (getMonth date);
          day = getDate date;
          year = getFullYear date;
          (hour, ampm) = to12 (getHours date);
          minute = getMinutes date;
          minutePadded = padStart2 (toString minute)
      in month @ '' '' @ toString day @ '' '' @ toString year @ '' '' @
         toString hour @ '':'' @ minutePadded @ ampm @ '' '' @ tz)"

text \<open>
  \<open>convertTimezone\<close>. The offsets are looked up in the table by the two labels that
  the caller passes; a label that is not in the table gives a value that is not a
  number, so the difference is NaN. An error of the parser leaves the function.
\<close>

definition convertTimezone :: "string \<Rightarrow> string \<Rightarrow> string \<Rightarrow> error + string" where
  "convertTimezone dateString sourceTz targetTz =
     (case parseDateString dateString of
        Inl e \<Rightarrow> Inl e
      | Inr p \<Rightarrow>
          let sourceOffset = TIMEZONE_OFFSETS sourceTz;
              targetOffset = TIMEZONE_OFFSETS targetTz;
              date = new_Date (year p) (month p) (day p) (hour p) (minute p);
              hourDiff = num_sub targetOffset sourceOffset;
              date = setHours date (num_add (getHours date) hourDiff)
          in Inr (formatDate date targetTz))"

section \<open>The standalone function add12Hours\<close>





section \<open>Evaluation on concrete inputs\<close>

lemmas parser_eval =
  parseDateString_def tokens_def parse_parts_def trim_def is_space_def parseInt_def
  strip_sign_def strip_radix_def
  digit_value_def is_digit_def lower_def toLowerCase_def to24_def MONTHS_def
  SUPPORTED_TIMEZONES_def Let_def

lemmas date_eval =
  new_Date_def MakeFullYear_def MakeDay_def MakeDate_def MakeTime_def TimeClip_def
  msPerDay_def msPerHour_def msPerMinute_def DayFromYear_def DaysInYear_def InLeapYear_def
  month_start_def setHours_def getHours_def getMinutes_def getDate_def getMonth_def
  getFullYear_def HourFromTime_def MinFromTime_def SecFromTime_def msFromTime_def Day_def
  YearFromTime_def YearFromDay_def year_search.simps DayWithinYear_def MonthFromTime_def
  DateFromTime_def month_of_yday_def date_of_yday_def num_add_def num_sub_def

lemmas format_eval =
  formatDate_def month_name_def at_index_def to12_def toString_def show_int_def
  show_nat.simps digit_char_def padStart2_def MONTHS_def Let_def

lemma parse_march_6:
  "parseDateString ''March 6 2009 7:30pm EST'' =
     Inr \<lparr> year = Some 2009, month = Some 2, day = Some 6, hour = Some 19, minute = Some 30,
           timezone = ''EST'', originalString = ''March 6 2009 7:30pm EST'' \<rparr>"
  by (simp add: parser_eval)

section \<open>Tokens after the fifth\<close>

text \<open>
  C10. An input with more than five tokens is parsed like the input made of its first
  five tokens: whenever two inputs have at least five tokens each and the same first five,
  the parser gives the same outcome for both, error or success, and on success the same
  structured fields; only the carried original string is that of the input itself. So an
  input whose first five tokens are accepted on their own is accepted with any tokens
  after them.
\<close>

theorem parse_ignores_extra_tokens:
  assumes "5 \<le> length (tokens s)" and "5 \<le> length (tokens s')"
    and "take 5 (tokens s) = take 5 (tokens s')"
  shows "parseDateString s = map_sum id (\<lambda>p. p\<lparr>originalString := s\<rparr>) (parseDateString s')"
proof -
  have nth: "tokens s ! i = tokens s' ! i" if "i < 5" for i
  proof -
    have "tokens s ! i = take 5 (tokens s) ! i" using that by simp
    also have "\<dots> = tokens s' ! i" using that assms(3) by simp
    finally show ?thesis .
  qed
  have n: "tokens s ! 0 = tokens s' ! 0" "tokens s ! 1 = tokens s' ! 1"
    "tokens s ! 2 = tokens s' ! 2" "tokens s ! 3 = tokens s' ! 3" "tokens s ! 4 = tokens s' ! 4"
    by (simp_all add: nth)
  show ?thesis
    using assms(1,2) n unfolding parseDateString_def parse_parts_def
    by (simp add: Let_def split: option.splits prod.splits)
qed

theorem parse_ignores_extra_tokens_witness:
  "5 \<le> length (tokens ''March 6 2009 7:30pm EST and more'')
   \<and> 5 \<le> length (tokens ''March 6 2009 7:30pm EST'')
   \<and> take 5 (tokens ''March 6 2009 7:30pm EST and more'') =
       take 5 (tokens ''March 6 2009 7:30pm EST'')
   \<and> parseDateString ''March 6 2009 7:30pm EST and more'' =
       Inr \<lparr> year = Some 2009, month = Some 2, day = Some 6, hour = Some 19, minute = Some 30,
             timezone = ''EST'', originalString = ''March 6 2009 7:30pm EST and more'' \<rparr>"
proof -
  have a: "5 \<le> length (tokens ''March 6 2009 7:30pm EST and more'')"
    by (simp add: tokens_def trim_def is_space_def)
  have b: "5 \<le> length (tokens ''March 6 2009 7:30pm EST'')"
    by (simp add: tokens_def trim_def is_space_def)
  have c: "take 5 (tokens ''March 6 2009 7:30pm EST and more'') =
           take 5 (tokens ''March 6 2009 7:30pm EST'')"
    by (simp add: tokens_def trim_def is_space_def)
  show ?thesis
    using parse_ignores_extra_tokens [OF a b c] a b c by (simp add: parse_march_6)
qed

section \<open>Conversion between time zones\<close>

text \<open>
  C4, as the code has it. \<open>convertTimezone\<close> takes the input string and two labels.
  When the string parses and both labels are in the table, the shift is the offset of
  the target label minus the offset of the source label that the caller passed (the
  label inside the string is checked by the parser and otherwise not used), the hours
  are added as \<open>addHours\<close> adds them, and the result is formatted with the target
  label. With the source label EST, \<open>March 6 2009 7:30pm EST\<close> becomes
  \<open>March 6 2009 4:30pm PST\<close>.
\<close>

theorem convertTimezone_shift:
  "(parseDateString s = Inr p \<and> TIMEZONE_OFFSETS sourceTz = Some a
      \<and> TIMEZONE_OFFSETS targetTz = Some b
    \<longrightarrow> convertTimezone s sourceTz targetTz =
          Inr (formatDate (newDate (addHours p (b - a))) targetTz))
   \<and> convertTimezone ''March 6 2009 7:30pm EST'' ''EST'' ''PST'' = Inr ''March 6 2009 4:30pm PST''"
proof
  show "parseDateString s = Inr p \<and> TIMEZONE_OFFSETS sourceTz = Some a
      \<and> TIMEZONE_OFFSETS targetTz = Some b
    \<longrightarrow> convertTimezone s sourceTz targetTz =
          Inr (formatDate (newDate (addHours p (b - a))) targetTz)"
    by (simp add: convertTimezone_def addHours_def Let_def num_sub_def)
  show "convertTimezone ''March 6 2009 7:30pm EST'' ''EST'' ''PST'' = Inr ''March 6 2009 4:30pm PST''"
    by (simp add: convertTimezone_def parse_march_6 TIMEZONE_OFFSETS_def date_eval format_eval)
qed

theorem convertTimezone_shift_witness:
  "parseDateString ''March 6 2009 7:30pm EST'' =
     Inr \<lparr> year = Some 2009, month = Some 2, day = Some 6, hour = Some 19, minute = Some 30,
           timezone = ''EST'', originalString = ''March 6 2009 7:30pm EST'' \<rparr>
   \<and> TIMEZONE_OFFSETS ''CST'' = Some (-6) \<and> TIMEZONE_OFFSETS ''UTC'' = Some 0
   \<and> convertTimezone ''March 6 2009 7:30pm EST'' ''CST'' ''UTC'' =
       Inr (formatDate (newDate (addHours
         \<lparr> year = Some 2009, month = Some 2, day = Some 6, hour = Some 19, minute = Some 30,
           timezone = ''EST'', originalString = ''March 6 2009 7:30pm EST'' \<rparr> 6)) ''UTC'')"
  using convertTimezone_shift [of "''March 6 2009 7:30pm EST''"
      "\<lparr> year = Some 2009, month = Some 2, day = Some 6, hour = Some 19, minute = Some 30,
         timezone = ''EST'', originalString = ''March 6 2009 7:30pm EST'' \<rparr>"
      "''CST''" "-6" "''UTC''" 0]
  by (simp add: parse_march_6 TIMEZONE_OFFSETS_def)

text \<open>
  The source offset is not read from the label of the parsed date: with the string
  labelled EST and the source label UTC, the shift is 8 hours back, where the label of
  the string would give 3.
\<close>

theorem convertTimezone_source_label_counterexample:
  "parseDateString ''March 6 2009 7:30pm EST'' =
     Inr \<lparr> year = Some 2009, month = Some 2, day = Some 6, hour = Some 19, minute = Some 30,
           timezone = ''EST'', originalString = ''March 6 2009 7:30pm EST'' \<rparr>
   \<and> convertTimezone ''March 6 2009 7:30pm EST'' ''UTC'' ''PST'' = Inr ''March 6 2009 11:30am PST''
   \<and> formatDate (newDate (addHours
         \<lparr> year = Some 2009, month = Some 2, day = Some 6, hour = Some 19, minute = Some 30,
           timezone = ''EST'', originalString = ''March 6 2009 7:30pm EST'' \<rparr>
         (the (TIMEZONE_OFFSETS ''PST'') - the (TIMEZONE_OFFSETS ''EST'')))) ''PST''
       = ''March 6 2009 4:30pm PST''"
  by (simp add: convertTimezone_def parse_march_6 TIMEZONE_OFFSETS_def addHours_def date_eval
      format_eval)

text \<open>
  C5, on the code. The parser rejects a label outside the table when it is token 4. A
  source or target label outside the table that is passed to \<open>convertTimezone\<close> is not
  rejected: its offset is not a number, the shifted date is invalid, and the function
  returns the text that \<open>formatDate\<close> produces for an invalid date.
\<close>

theorem convertTimezone_unknown_target:
  "parseDateString ''March 6 2009 7:30pm XYZ'' = Inl UnsupportedTimezone
   \<and> convertTimezone ''March 6 2009 7:30pm XYZ'' ''EST'' ''PST'' = Inl UnsupportedTimezone
   \<and> convertTimezone ''March 6 2009 7:30pm EST'' ''EST'' ''XYZ'' =
       Inr ''undefined NaN NaN NaN:NaNam XYZ''
   \<and> convertTimezone ''March 6 2009 7:30pm EST'' ''XYZ'' ''PST'' =
       Inr ''undefined NaN NaN NaN:NaNam PST''"
proof -
  have p: "parseDateString ''March 6 2009 7:30pm XYZ'' = Inl UnsupportedTimezone"
    by (simp add: parser_eval)
  have "convertTimezone ''March 6 2009 7:30pm XYZ'' ''EST'' ''PST'' = Inl UnsupportedTimezone"
    by (simp add: convertTimezone_def p)
  moreover have "convertTimezone ''March 6 2009 7:30pm EST'' ''EST'' ''XYZ'' =
      Inr ''undefined NaN NaN NaN:NaNam XYZ''"
    by (simp add: convertTimezone_def parse_march_6 TIMEZONE_OFFSETS_def date_eval format_eval)
  moreover have "convertTimezone ''March 6 2009 7:30pm EST'' ''XYZ'' ''PST'' =
      Inr ''undefined NaN NaN NaN:NaNam PST''"
    by (simp add: convertTimezone_def parse_march_6 TIMEZONE_OFFSETS_def date_eval format_eval)
  ultimately show ?thesis using p by simp
qed

subsection \<open>Decimal text and parseInt\<close>











section \<open>The year and the day tokens\<close>





text \<open>
  C6, as the code has it. The day is \<open>parseInt\<close> of token 1, and it is compared with 1
  and 31 after the token count, the time pattern and the month have been checked. For an
  input that passes those checks and whose day token gives a number \<open>d\<close>: if \<open>d\<close> is
  below 1 or above 31 the parse fails with \<open>Invalid day\<close>; if \<open>d\<close> is from 1 to 31 and
  the time zone is supported, the parse succeeds with that day, whatever the month is.
\<close>

theorem parse_day_range:
  assumes "5 \<le> length (tokens s)" and "time_match (tokens s ! 3) = Some tm"
    and "tokens s ! 0 \<in> set MONTHS" and "parseInt (tokens s ! 1) = Some d"
  shows "(d < 1 \<or> 31 < d \<longrightarrow> parseDateString s = Inl InvalidDay)
       \<and> (1 \<le> d \<and> d \<le> 31 \<and> tokens s ! 4 \<in> set SUPPORTED_TIMEZONES \<longrightarrow>
            (\<exists>p. parseDateString s = Inr p \<and> day p = Some d
                 \<and> month p = Some (indexOf MONTHS (tokens s ! 0))))"
  using assms unfolding parseDateString_def parse_parts_def
  by (auto simp: Let_def split: prod.splits)

theorem parse_day_range_witness:
  "parseDateString ''March 32 2009 7:30pm EST'' = Inl InvalidDay
   \<and> parseDateString ''February 31 2009 7:30pm EST'' =
       Inr \<lparr> year = Some 2009, month = Some 1, day = Some 31, hour = Some 19, minute = Some 30,
             timezone = ''EST'', originalString = ''February 31 2009 7:30pm EST'' \<rparr>
   \<and> 5 \<le> length (tokens ''March 32 2009 7:30pm EST'')
   \<and> time_match (tokens ''March 32 2009 7:30pm EST'' ! 3) = Some (''7'', ''30'', ''pm'')
   \<and> tokens ''March 32 2009 7:30pm EST'' ! 0 \<in> set MONTHS
   \<and> parseInt (tokens ''March 32 2009 7:30pm EST'' ! 1) = Some 32
   \<and> 5 \<le> length (tokens ''February 31 2009 7:30pm EST'')
   \<and> time_match (tokens ''February 31 2009 7:30pm EST'' ! 3) = Some (''7'', ''30'', ''pm'')
   \<and> tokens ''February 31 2009 7:30pm EST'' ! 0 \<in> set MONTHS
   \<and> parseInt (tokens ''February 31 2009 7:30pm EST'' ! 1) = Some 31
   \<and> tokens ''February 31 2009 7:30pm EST'' ! 4 \<in> set SUPPORTED_TIMEZONES"
proof -
  have t: "tokens ''March 32 2009 7:30pm EST'' = [''March'', ''32'', ''2009'', ''7:30pm'', ''EST'']"
    "tokens ''February 31 2009 7:30pm EST'' = [''February'', ''31'', ''2009'', ''7:30pm'', ''EST'']"
    by (simp_all add: tokens_def trim_def is_space_def)
  have a: "5 \<le> length (tokens ''March 32 2009 7:30pm EST'')"
    "time_match (tokens ''March 32 2009 7:30pm EST'' ! 3) = Some (''7'', ''30'', ''pm'')"
    "tokens ''March 32 2009 7:30pm EST'' ! 0 \<in> set MONTHS"
    "parseInt (tokens ''March 32 2009 7:30pm EST'' ! 1) = Some 32"
    by (simp_all add: t is_digit_def lower_def MONTHS_def parseInt_def strip_sign_def
        strip_radix_def is_space_def digit_value_def)
  have b: "5 \<le> length (tokens ''February 31 2009 7:30pm EST'')"
    "time_match (tokens ''February 31 2009 7:30pm EST'' ! 3) = Some (''7'', ''30'', ''pm'')"
    "tokens ''February 31 2009 7:30pm EST'' ! 0 \<in> set MONTHS"
    "parseInt (tokens ''February 31 2009 7:30pm EST'' ! 1) = Some 31"
    by (simp_all add: t is_digit_def lower_def MONTHS_def parseInt_def strip_sign_def
        strip_radix_def is_space_def digit_value_def)
  have c: "tokens ''February 31 2009 7:30pm EST'' ! 4 \<in> set SUPPORTED_TIMEZONES"
    by (simp add: t SUPPORTED_TIMEZONES_def)
  have f: "parseDateString ''February 31 2009 7:30pm EST'' =
       Inr \<lparr> year = Some 2009, month = Some 1, day = Some 31, hour = Some 19, minute = Some 30,
             timezone = ''EST'', originalString = ''February 31 2009 7:30pm EST'' \<rparr>"
    by (simp add: parser_eval)
  from parse_day_range [OF a] have "parseDateString ''March 32 2009 7:30pm EST'' = Inl InvalidDay"
    by simp
  moreover from parse_day_range [OF b] c
  have "\<exists>p. parseDateString ''February 31 2009 7:30pm EST'' = Inr p \<and> day p = Some 31
            \<and> month p = Some (indexOf MONTHS (tokens ''February 31 2009 7:30pm EST'' ! 0))"
    by simp
  ultimately show ?thesis using a b c f by simp
qed

text \<open>
  The claim fails on a day token that is not an integer but starts with one:
  \<open>parseInt\<close> reads the digits and ignores the rest, and the parse succeeds.
\<close>

theorem parse_day_counterexample:
  "parseDateString ''March 6x 2009 7:30pm EST'' =
     Inr \<lparr> year = Some 2009, month = Some 2, day = Some 6, hour = Some 19, minute = Some 30,
           timezone = ''EST'', originalString = ''March 6x 2009 7:30pm EST'' \<rparr>"
  by (simp add: parser_eval)

section \<open>The time token\<close>

















section \<open>The calendar of Date\<close>










section \<open>The Gregorian calendar of the specification\<close>























subsection \<open>Time within the day\<close>




section \<open>Adding hours\<close>





















section \<open>Splitting and trimming\<close>







section \<open>The grammar of the specification\<close>

















section \<open>The two implementations\<close>











section \<open>Formatting and parsing again\<close>



























end
